theory Spec2Isabelle
  imports Complex_Main "HOL-Library.AList"
begin

section \<open>JavaScript values, exceptions and console output\<close>

text \<open>
  The handlers are JavaScript. A number is a double: a finite value (kept here as the
  rational it denotes), an infinity or NaN. A value is what \<^verbatim>\<open>JSON.parse\<close> can
  deliver, plus \<^verbatim>\<open>undefined\<close> for a property that is absent. An object is the list
  of its own properties in insertion order.
\<close>

datatype jsnum = Finite rat | PosInf | NegInf | NaN

datatype jsval =
    JUndefined
  | JNull
  | JBool bool
  | JNum jsnum
  | JStr string
  | JArr "jsval list"
  | JObj "(string \<times> jsval) list"

text \<open>
  An exception carries the \<^verbatim>\<open>message\<close> and, for the processor's errors, the
  \<^verbatim>\<open>type\<close> that the catch blocks read; \<^verbatim>\<open>type\<close> is \<^verbatim>\<open>undefined\<close> on a built-in
  error.
\<close>

record js_error =
  err_name :: string
  message :: string
  err_type :: "string option"

definition TypeError :: "string \<Rightarrow> js_error" where
  "TypeError m = \<lparr>err_name = ''TypeError'', message = m, err_type = None\<rparr>"

definition RangeError :: "string \<Rightarrow> js_error" where
  "RangeError m = \<lparr>err_name = ''RangeError'', message = m, err_type = None\<rparr>"

text \<open>
  Console output is kept symbolic: a line is the sequence of its literal pieces and of the
  values interpolated into it, so that no number or object has to be formatted. The
  non-ASCII glyphs of the source's messages (the emoji that open them, the pound sign
  before an amount) are left out of the literals.
  \<^verbatim>\<open>InterpDiv100 v\<close> stands for \<^verbatim>\<open>${v / 100}\<close>, \<^verbatim>\<open>InterpStringify v\<close> for
  \<^verbatim>\<open>${JSON.stringify(v)}\<close> and \<^verbatim>\<open>InterpUpper s\<close> for \<^verbatim>\<open>${s.toUpperCase()}\<close>.
\<close>

datatype log_item =
    Lit string
  | Interp jsval
  | InterpDiv100 jsval
  | InterpStringify jsval
  | InterpUpper string

datatype log_line = ConsoleLog "log_item list" | ConsoleError "log_item list"

text \<open>
  A statement sequence writes console lines and then either completes with a value or
  throws; the lines written before a throw stay written.
\<close>

type_synonym 'a js = "log_line list \<times> (js_error + 'a)"

definition returnM :: "'a \<Rightarrow> 'a js" where
  "returnM a = ([], Inr a)"

definition throwM :: "js_error \<Rightarrow> 'a js" where
  "throwM e = ([], Inl e)"

fun bindM :: "'a js \<Rightarrow> ('a \<Rightarrow> 'b js) \<Rightarrow> 'b js" where
  "bindM (l, Inl e) f = (l, Inl e)"
| "bindM (l, Inr a) f = (case f a of (l', r) \<Rightarrow> (l @ l', r))"

definition console_log :: "log_item list \<Rightarrow> unit js" where
  "console_log items = ([ConsoleLog items], Inr ())"

text \<open>A property name as the runtime prints it in a message: between apostrophes.\<close>

definition quoted :: "string \<Rightarrow> string" where
  "quoted k = CHR 0x27 # k @ [CHR 0x27]"

text \<open>
  \<^verbatim>\<open>v.k\<close>: a TypeError on \<^verbatim>\<open>undefined\<close> and \<^verbatim>\<open>null\<close>, the own property of an
  object, and \<^verbatim>\<open>undefined\<close> on the other values (none of the keys read by the
  handlers is a built-in property of a string, number, boolean or array).
\<close>

fun get_prop :: "jsval \<Rightarrow> string \<Rightarrow> jsval js" where
  "get_prop JUndefined k =
     throwM (TypeError (''Cannot read properties of undefined (reading '' @ quoted k @ '')''))"
| "get_prop JNull k =
     throwM (TypeError (''Cannot read properties of null (reading '' @ quoted k @ '')''))"
| "get_prop (JObj ps) k = returnM (case map_of ps k of None \<Rightarrow> JUndefined | Some v \<Rightarrow> v)"
| "get_prop v k = returnM JUndefined"

text \<open>\<^verbatim>\<open>v?.k\<close>: \<^verbatim>\<open>undefined\<close> when \<open>v\<close> is \<^verbatim>\<open>undefined\<close> or \<^verbatim>\<open>null\<close>.\<close>

definition opt_prop :: "jsval \<Rightarrow> string \<Rightarrow> jsval js" where
  "opt_prop v k = (if v = JUndefined \<or> v = JNull then returnM JUndefined else get_prop v k)"

fun truthy_num :: "jsnum \<Rightarrow> bool" where
  "truthy_num (Finite r) = (r \<noteq> 0)"
| "truthy_num NaN = False"
| "truthy_num n = True"

fun truthy :: "jsval \<Rightarrow> bool" where
  "truthy JUndefined = False"
| "truthy JNull = False"
| "truthy (JBool b) = b"
| "truthy (JNum n) = truthy_num n"
| "truthy (JStr s) = (s \<noteq> [])"
| "truthy (JArr xs) = True"
| "truthy (JObj ps) = True"

text \<open>
  Converting a value to a primitive, which both \<^verbatim>\<open>${v}\<close> and \<^verbatim>\<open>v / 100\<close> start
  with, throws on some values. An object parsed from JSON has no callable property, so
  an own property named \<^verbatim>\<open>toString\<close> hides the inherited method and the conversion
  finds neither a \<^verbatim>\<open>toString\<close> nor a \<^verbatim>\<open>valueOf\<close> that yields a primitive. An array
  is joined, which converts each of its elements other than \<^verbatim>\<open>null\<close>. Every other
  value converts.
\<close>

fun unconvertible :: "jsval \<Rightarrow> bool" where
  "unconvertible (JObj ps) = (map_of ps ''toString'' \<noteq> None)"
| "unconvertible (JArr xs) = list_ex unconvertible xs"
| "unconvertible v = False"

definition to_primitive :: "jsval \<Rightarrow> unit js" where
  "to_primitive v =
     (if unconvertible v then throwM (TypeError ''Cannot convert object to primitive value'')
      else returnM ())"

text \<open>The substitutions \<^verbatim>\<open>${v}\<close> and \<^verbatim>\<open>${v / 100}\<close> of a template literal.\<close>

definition interp :: "jsval \<Rightarrow> log_item js" where
  "interp v = bindM (to_primitive v) (\<lambda>_. returnM (Interp v))"

definition interp_div100 :: "jsval \<Rightarrow> log_item js" where
  "interp_div100 v = bindM (to_primitive v) (\<lambda>_. returnM (InterpDiv100 v))"

text \<open>\<^verbatim>\<open>a || b\<close> on values.\<close>

definition or_else :: "jsval \<Rightarrow> jsval \<Rightarrow> jsval" where
  "or_else a b = (if truthy a then a else b)"

text \<open>An HTTP response: \<^verbatim>\<open>res.status(n).json(body)\<close>; \<^verbatim>\<open>res.json(body)\<close> answers 200.\<close>

record response =
  status :: nat
  body :: jsval

definition res_json :: "jsval \<Rightarrow> response" where
  "res_json b = \<lparr>status = 200, body = b\<rparr>"

definition res_status_json :: "nat \<Rightarrow> jsval \<Rightarrow> response" where
  "res_status_json n b = \<lparr>status = n, body = b\<rparr>"


section \<open>webhook.js\<close>

text \<open>
  The event that \<^verbatim>\<open>stripe.webhooks.constructEvent\<close> returns: an identifier, the
  event-type tag and the nested \<^verbatim>\<open>data\<close>, whose shape depends on the type. The handler
  only copies and compares \<^verbatim>\<open>id\<close> and \<^verbatim>\<open>type\<close>; it dereferences \<^verbatim>\<open>data\<close>, which
  therefore stays an arbitrary value.
\<close>

record event =
  ev_id :: string
  ev_type :: string
  ev_data :: jsval

subsection \<open>The switch statement\<close>

text \<open>
  A \<^verbatim>\<open>switch\<close> is a list of clauses in source order. A clause has a label
  (\<open>None\<close> for \<^verbatim>\<open>default\<close>), a body and a flag telling whether the body ends in
  \<^verbatim>\<open>break\<close>. Control enters at the first clause whose label equals the discriminant, or
  at \<^verbatim>\<open>default\<close> when none does, and runs the bodies from there on until a \<^verbatim>\<open>break\<close>.
\<close>

record 'b clause =
  label :: "string option"
  clause_body :: 'b
  breaks :: bool

fun run_from :: "'b clause list \<Rightarrow> 'b list" where
  "run_from [] = []"
| "run_from (c # cs) = clause_body c # (if breaks c then [] else run_from cs)"

fun find_case :: "string \<Rightarrow> 'b clause list \<Rightarrow> 'b clause list option" where
  "find_case v [] = None"
| "find_case v (c # cs) = (if label c = Some v then Some (c # cs) else find_case v cs)"

fun find_default :: "'b clause list \<Rightarrow> 'b clause list option" where
  "find_default [] = None"
| "find_default (c # cs) = (if label c = None then Some (c # cs) else find_default cs)"

definition switch_on :: "string \<Rightarrow> 'b clause list \<Rightarrow> 'b list" where
  "switch_on v cs =
     (case find_case v cs of
        Some entered \<Rightarrow> run_from entered
      | None \<Rightarrow> (case find_default cs of Some entered \<Rightarrow> run_from entered | None \<Rightarrow> []))"

subsection \<open>The dispatch branches\<close>

datatype branch =
    PaymentSucceeded
  | PaymentFailed
  | RequiresAction
  | CustomerCreated
  | DisputeCreated
  | Unhandled

text \<open>
  A template literal evaluates and converts its substitutions from left to right, before
  \<^verbatim>\<open>console.log\<close> is called; \<^verbatim>\<open>JSON.stringify\<close> of a parsed value does not throw.
\<close>

definition event_object :: "event \<Rightarrow> jsval js" where
  "event_object e = get_prop (ev_data e) ''object''"

definition payment_succeeded :: "event \<Rightarrow> unit js" where
  "payment_succeeded e =
     bindM (event_object e) (\<lambda>paymentIntent.
     bindM (console_log [Lit ''Payment succeeded!'']) (\<lambda>_.
     bindM (get_prop paymentIntent ''amount'') (\<lambda>amount.
     bindM (interp_div100 amount) (\<lambda>amount'.
     bindM (console_log [Lit ''   Amount:   '', amount']) (\<lambda>_.
     bindM (get_prop paymentIntent ''id'') (\<lambda>pid.
     bindM (interp pid) (\<lambda>pid'.
     bindM (console_log [Lit ''   PI ID:    '', pid']) (\<lambda>_.
     bindM (get_prop paymentIntent ''customer'') (\<lambda>customer.
     bindM (interp (or_else customer (JStr ''guest''))) (\<lambda>customer'.
     bindM (console_log [Lit ''   Customer: '', customer']) (\<lambda>_.
     bindM (get_prop paymentIntent ''metadata'') (\<lambda>metadata.
     console_log [Lit ''   Metadata: '', InterpStringify metadata]))))))))))))"

definition payment_failed :: "event \<Rightarrow> unit js" where
  "payment_failed e =
     bindM (event_object e) (\<lambda>paymentIntent.
     bindM (get_prop paymentIntent ''last_payment_error'') (\<lambda>error.
     bindM (console_log [Lit ''Payment failed!'']) (\<lambda>_.
     bindM (get_prop paymentIntent ''id'') (\<lambda>pid.
     bindM (interp pid) (\<lambda>pid'.
     bindM (console_log [Lit ''   PI ID:        '', pid']) (\<lambda>_.
     bindM (opt_prop error ''code'') (\<lambda>code.
     bindM (interp code) (\<lambda>code'.
     bindM (console_log [Lit ''   Error code:   '', code']) (\<lambda>_.
     bindM (opt_prop error ''decline_code'') (\<lambda>decline_code.
     bindM (interp decline_code) (\<lambda>decline_code'.
     bindM (console_log [Lit ''   Decline code: '', decline_code']) (\<lambda>_.
     bindM (opt_prop error ''message'') (\<lambda>msg.
     bindM (interp msg) (\<lambda>msg'.
     console_log [Lit ''   Message:      '', msg']))))))))))))))"

definition requires_action :: "event \<Rightarrow> unit js" where
  "requires_action e =
     bindM (event_object e) (\<lambda>paymentIntent.
     bindM (console_log [Lit ''3DS Authentication required'']) (\<lambda>_.
     bindM (get_prop paymentIntent ''id'') (\<lambda>pid.
     bindM (interp pid) (\<lambda>pid'.
     bindM (console_log [Lit ''   PI ID:  '', pid']) (\<lambda>_.
     bindM (get_prop paymentIntent ''next_action'') (\<lambda>next_action.
     bindM (opt_prop next_action ''type'') (\<lambda>ty.
     bindM (interp ty) (\<lambda>ty'.
     console_log [Lit ''   Action: '', ty']))))))))"

definition customer_created :: "event \<Rightarrow> unit js" where
  "customer_created e =
     bindM (event_object e) (\<lambda>customer.
     bindM (get_prop customer ''id'') (\<lambda>cid.
     bindM (interp cid) (\<lambda>cid'.
     bindM (get_prop customer ''email'') (\<lambda>email.
     bindM (interp email) (\<lambda>email'.
     console_log [Lit ''New customer created: '', cid', Lit '' | '', email'])))))"

definition dispute_created :: "event \<Rightarrow> unit js" where
  "dispute_created e =
     bindM (event_object e) (\<lambda>dispute.
     bindM (console_log [Lit ''Dispute opened!'']) (\<lambda>_.
     bindM (get_prop dispute ''id'') (\<lambda>did.
     bindM (interp did) (\<lambda>did'.
     bindM (console_log [Lit ''   Dispute ID: '', did']) (\<lambda>_.
     bindM (get_prop dispute ''amount'') (\<lambda>amount.
     bindM (interp_div100 amount) (\<lambda>amount'.
     bindM (console_log [Lit ''   Amount:     '', amount']) (\<lambda>_.
     bindM (get_prop dispute ''reason'') (\<lambda>reason.
     bindM (interp reason) (\<lambda>reason'.
     console_log [Lit ''   Reason:     '', reason']))))))))))"

definition unhandled :: "event \<Rightarrow> unit js" where
  "unhandled e = console_log [Lit ''Unhandled event type: '', Interp (JStr (ev_type e))]"

fun run_branch :: "branch \<Rightarrow> event \<Rightarrow> unit js" where
  "run_branch PaymentSucceeded e = payment_succeeded e"
| "run_branch PaymentFailed e = payment_failed e"
| "run_branch RequiresAction e = requires_action e"
| "run_branch CustomerCreated e = customer_created e"
| "run_branch DisputeCreated e = dispute_created e"
| "run_branch Unhandled e = unhandled e"

text \<open>The clauses of the handler's switch, in source order; only \<^verbatim>\<open>default\<close> has no \<^verbatim>\<open>break\<close>.\<close>

definition webhook_switch :: "branch clause list" where
  "webhook_switch =
     [\<lparr>label = Some ''payment_intent.succeeded'', clause_body = PaymentSucceeded, breaks = True\<rparr>,
      \<lparr>label = Some ''payment_intent.payment_failed'', clause_body = PaymentFailed, breaks = True\<rparr>,
      \<lparr>label = Some ''payment_intent.requires_action'', clause_body = RequiresAction, breaks = True\<rparr>,
      \<lparr>label = Some ''customer.created'', clause_body = CustomerCreated, breaks = True\<rparr>,
      \<lparr>label = Some ''charge.dispute.created'', clause_body = DisputeCreated, breaks = True\<rparr>,
      \<lparr>label = None, clause_body = Unhandled, breaks = False\<rparr>]"

definition entered_branches :: "event \<Rightarrow> branch list" where
  "entered_branches e = switch_on (ev_type e) webhook_switch"

fun run_branches :: "branch list \<Rightarrow> event \<Rightarrow> unit js" where
  "run_branches [] e = returnM ()"
| "run_branches (b # bs) e = bindM (run_branch b e) (\<lambda>_. run_branches bs e)"

definition dispatch :: "event \<Rightarrow> unit js" where
  "dispatch e = run_branches (entered_branches e) e"

subsection \<open>handleWebhook\<close>

text \<open>
  The request carries the raw body and the \<^verbatim>\<open>stripe-signature\<close> header; the signing secret
  comes from the environment. \<^verbatim>\<open>stripe.webhooks.constructEvent\<close> belongs to the
  processor's client library: it is a parameter that either throws or returns the event.
  The result records the response, every console line in order and the branches of the
  switch that were entered.
\<close>

record webhook_request =
  raw_body :: string
  stripe_signature :: "string option"

type_synonym construct_event =
  "string \<Rightarrow> string option \<Rightarrow> string option \<Rightarrow> js_error + event"

record webhook_result =
  wh_response :: response
  wh_log :: "log_line list"
  wh_dispatched :: "branch list"

definition handleWebhook ::
  "construct_event \<Rightarrow> string option \<Rightarrow> webhook_request \<Rightarrow> webhook_result" where
  "handleWebhook constructEvent webhookSecret req =
     (case constructEvent (raw_body req) (stripe_signature req) webhookSecret of
        Inl err \<Rightarrow>
          \<lparr>wh_response =
             res_status_json 400 (JObj [(''error'', JStr (''Webhook Error: '' @ message err))]),
           wh_log =
             [ConsoleError [Lit ''Webhook signature verification failed: '',
                            Interp (JStr (message err))]],
           wh_dispatched = []\<rparr>
      | Inr event \<Rightarrow>
          (let received = ConsoleLog [Lit ''Webhook received: '', Interp (JStr (ev_type event)),
                                      Lit '' | ID: '', Interp (JStr (ev_id event))]
           in case dispatch event of
                (lines, Inr _) \<Rightarrow>
                  \<lparr>wh_response =
                     res_json (JObj [(''received'', JBool True),
                                     (''eventType'', JStr (ev_type event)),
                                     (''eventId'', JStr (ev_id event))]),
                   wh_log = received # lines,
                   wh_dispatched = entered_branches event\<rparr>
              | (lines, Inl err) \<Rightarrow>
                  \<lparr>wh_response =
                     res_status_json 500
                       (JObj [(''error'', JStr ''Internal error processing webhook'')]),
                   wh_log = received # lines @
                     [ConsoleError [Lit ''Error processing webhook event: '',
                                    Interp (JStr (message err))]],
                   wh_dispatched = entered_branches event\<rparr>))"


subsection \<open>The verifier, from the specification\<close>

text \<open>
  Modelled from the spec: the data of \<^verbatim>\<open>stripe.webhooks.constructEvent\<close>, which belongs
  to the processor's client library and is not in the repository. The signature header,
  parsed: the embedded timestamp (seconds) and the digests it lists.
\<close>

record signature_header =
  sh_timestamp :: int
  sh_digests :: "string list"

text \<open>
  The primitives of the verifier: the header parser (\<open>None\<close> on a malformed header),
  the keyed digest of \<^verbatim>\<open>timestamp + "." + rawBody\<close> under a secret, the parser
  that turns the raw body into the typed event, and the clock (seconds).
\<close>

record verifier_primitives =
  parse_header :: "string \<Rightarrow> signature_header option"
  digest :: "string \<Rightarrow> int \<Rightarrow> string \<Rightarrow> string"
  parse_event :: "string \<Rightarrow> js_error + event"
  clock :: int

text \<open>
  Modelled from the spec: the tolerance window, the processor's default of five minutes
  (the handler passes no tolerance of its own).
\<close>

definition DEFAULT_TOLERANCE :: int where
  "DEFAULT_TOLERANCE = 300"

definition SignatureVerificationError :: "string \<Rightarrow> js_error" where
  "SignatureVerificationError m =
     \<lparr>err_name = ''StripeSignatureVerificationError'', message = m,
      err_type = Some ''StripeSignatureVerificationError''\<rparr>"

text \<open>
  Modelled from the spec: \<^verbatim>\<open>stripe.webhooks.constructEvent\<close>, the verification routine
  of the processor's client library, which the repository calls and does not contain.
  Following section 4.1: the header encodes a timestamp and one or more digests of
  \<^verbatim>\<open>timestamp + "." + rawBody\<close> under the shared secret; verification recomputes the
  digest over the raw bytes and fails on a malformed header, on a digest that is not
  listed, and on a timestamp older than the tolerance window.
\<close>

definition constructEvent_spec :: "verifier_primitives \<Rightarrow> construct_event" where
  "constructEvent_spec lib payload header secret =
     (case header of
        None \<Rightarrow> Inl (SignatureVerificationError ''No signature header'')
      | Some h \<Rightarrow>
          (case secret of
             None \<Rightarrow> Inl (SignatureVerificationError ''No signing secret'')
           | Some s \<Rightarrow>
               (case parse_header lib h of
                  None \<Rightarrow> Inl (SignatureVerificationError ''Malformed signature header'')
                | Some sh \<Rightarrow>
                    if digest lib s (sh_timestamp sh) payload \<notin> set (sh_digests sh)
                    then Inl (SignatureVerificationError ''No matching signature'')
                    else if clock lib - sh_timestamp sh > DEFAULT_TOLERANCE
                    then Inl (SignatureVerificationError ''Timestamp outside the tolerance zone'')
                    else parse_event lib payload)))"


section \<open>payments.js\<close>

text \<open>
  The objects of the processor, with the fields the handlers read and the types the
  processor's interface gives them: amounts and creation times are integers,
  \<^verbatim>\<open>customer\<close> and \<^verbatim>\<open>last_payment_error\<close> may be \<^verbatim>\<open>null\<close> (\<open>None\<close>).
\<close>

record last_payment_error =
  lpe_code :: "string option"
  lpe_message :: "string option"
  lpe_decline_code :: "string option"

record payment_intent =
  pi_id :: string
  pi_client_secret :: string
  pi_amount :: int
  pi_currency :: string
  pi_status :: string
  pi_customer :: "string option"
  pi_metadata :: "(string \<times> string) list"
  pi_created :: int
  pi_last_payment_error :: "last_payment_error option"

text \<open>
  The body of \<^verbatim>\<open>POST /create-payment-intent\<close>, typed as the handler documents it:
  \<^verbatim>\<open>amount\<close> is a number, \<^verbatim>\<open>currency\<close> and \<^verbatim>\<open>customerId\<close> are strings,
  \<^verbatim>\<open>metadata\<close> is an object; \<open>None\<close> is a field that is absent.
\<close>

record payment_intent_body =
  amount :: "jsnum option"
  currency :: "string option"
  customerId :: "string option"
  metadata :: "(string \<times> jsval) list option"

text \<open>
  The argument of \<^verbatim>\<open>stripe.paymentIntents.create\<close>; \<^verbatim>\<open>customer\<close> is set only when
  the handler attaches one.
\<close>

record payment_intent_params =
  p_amount :: jsnum
  p_currency :: string
  p_automatic_payment_methods_enabled :: bool
  p_metadata :: "(string \<times> jsval) list"
  p_customer :: "string option"

record customer_params =
  cp_email :: string
  cp_name :: "string option"
  cp_phone :: "string option"
  cp_metadata :: "(string \<times> jsval) list"

text \<open>Every request sent to the external processor, in order.\<close>

datatype processor_call =
    PaymentIntentsCreate payment_intent_params
  | PaymentIntentsRetrieve string
  | CustomersCreate customer_params

text \<open>What a request handler does: its response, its console lines, its processor calls.\<close>

record handler_result =
  hr_response :: response
  hr_log :: "log_line list"
  hr_calls :: "processor_call list"

fun le_zero :: "jsnum \<Rightarrow> bool" where
  "le_zero (Finite r) = (r \<le> 0)"
| "le_zero NegInf = True"
| "le_zero PosInf = False"
| "le_zero NaN = False"

text \<open>\<^verbatim>\<open>{...obj, k: v}\<close>: the own properties of \<open>obj\<close>, with \<open>k\<close> set to \<open>v\<close>.\<close>

definition spread_with :: "(string \<times> jsval) list \<Rightarrow> string \<Rightarrow> jsval \<Rightarrow> (string \<times> jsval) list" where
  "spread_with obj k v = AList.update k v obj"

definition or_empty :: "(string \<times> jsval) list option \<Rightarrow> (string \<times> jsval) list" where
  "or_empty m = (case m of None \<Rightarrow> [] | Some obj \<Rightarrow> obj)"

definition opt_str :: "string option \<Rightarrow> jsval" where
  "opt_str s = (case s of None \<Rightarrow> JUndefined | Some t \<Rightarrow> JStr t)"

definition nullable_str :: "string option \<Rightarrow> jsval" where
  "nullable_str s = (case s of None \<Rightarrow> JNull | Some t \<Rightarrow> JStr t)"

definition js_int :: "int \<Rightarrow> jsval" where
  "js_int n = JNum (Finite (of_int n))"

text \<open>
  \<^verbatim>\<open>new Date(ms).toISOString()\<close>: a RangeError outside the range of time values; inside
  it the text is produced by the runtime's formatter, a parameter here.
\<close>

definition toISOString :: "(int \<Rightarrow> string) \<Rightarrow> int \<Rightarrow> js_error + string" where
  "toISOString fmt ms =
     (if \<bar>ms\<bar> \<le> 8640000000000000 then Inr (fmt ms) else Inl (RangeError ''Invalid time value''))"

subsection \<open>createPaymentIntent\<close>

type_synonym payment_intents_create = "payment_intent_params \<Rightarrow> js_error + payment_intent"

definition createPaymentIntent ::
  "payment_intents_create \<Rightarrow> string \<Rightarrow> payment_intent_body \<Rightarrow> handler_result" where
  "createPaymentIntent create now req_body =
     (let currency' = (case currency req_body of None \<Rightarrow> ''gbp'' | Some c \<Rightarrow> c);
          metadata' = or_empty (metadata req_body);
          invalid = \<lparr>hr_response = res_status_json 400
                        (JObj [(''error'', JStr ''Amount must be a positive integer (in pence/cents)'')]),
                     hr_log = [], hr_calls = []\<rparr>
      in case amount req_body of
           None \<Rightarrow> invalid
         | Some amount' \<Rightarrow>
             if \<not> truthy_num amount' \<or> le_zero amount' then invalid
             else
               (let paymentIntentParams =
                      \<lparr>p_amount = amount',
                       p_currency = currency',
                       p_automatic_payment_methods_enabled = True,
                       p_metadata = spread_with metadata' ''timestamp'' (JStr now),
                       p_customer = (case customerId req_body of
                                       None \<Rightarrow> None
                                     | Some c \<Rightarrow> if c \<noteq> [] then Some c else None)\<rparr>
                in case create paymentIntentParams of
                     Inr paymentIntent \<Rightarrow>
                       \<lparr>hr_response = res_json
                          (JObj [(''paymentIntentId'', JStr (pi_id paymentIntent)),
                                 (''clientSecret'', JStr (pi_client_secret paymentIntent)),
                                 (''amount'', js_int (pi_amount paymentIntent)),
                                 (''currency'', JStr (pi_currency paymentIntent)),
                                 (''status'', JStr (pi_status paymentIntent))]),
                        hr_log =
                          [ConsoleLog [Lit ''PaymentIntent created: '',
                                       Interp (JStr (pi_id paymentIntent)),
                                       Lit '' | '', InterpDiv100 (JNum amount'),
                                       Lit '' '', InterpUpper currency',
                                       Lit '' | status: '',
                                       Interp (JStr (pi_status paymentIntent))]],
                        hr_calls = [PaymentIntentsCreate paymentIntentParams]\<rparr>
                   | Inl error \<Rightarrow>
                       \<lparr>hr_response = res_status_json 400
                          (JObj [(''error'', JStr (message error)),
                                 (''type'', opt_str (err_type error))]),
                        hr_log = [ConsoleError [Lit ''PaymentIntent creation failed:'',
                                                Interp (JStr (message error))]],
                        hr_calls = [PaymentIntentsCreate paymentIntentParams]\<rparr>))"

subsection \<open>getPaymentStatus\<close>

text \<open>\<^verbatim>\<open>s.startsWith(p)\<close>.\<close>

definition startsWith :: "string \<Rightarrow> string \<Rightarrow> bool" where
  "startsWith s p = (take (length p) s = p)"

type_synonym payment_intents_retrieve = "string \<Rightarrow> js_error + payment_intent"

definition lastError :: "last_payment_error option \<Rightarrow> jsval" where
  "lastError e =
     (case e of
        None \<Rightarrow> JNull
      | Some l \<Rightarrow> JObj [(''code'', opt_str (lpe_code l)),
                        (''message'', opt_str (lpe_message l)),
                        (''declineCode'', opt_str (lpe_decline_code l))])"

definition retrieve_failed :: "js_error \<Rightarrow> string \<Rightarrow> handler_result" where
  "retrieve_failed error pid =
     \<lparr>hr_response = res_status_json 404 (JObj [(''error'', JStr (message error))]),
      hr_log = [ConsoleError [Lit ''Retrieve PaymentIntent failed:'',
                              Interp (JStr (message error))]],
      hr_calls = [PaymentIntentsRetrieve pid]\<rparr>"

definition getPaymentStatus ::
  "payment_intents_retrieve \<Rightarrow> (int \<Rightarrow> string) \<Rightarrow> string option \<Rightarrow> handler_result" where
  "getPaymentStatus retrieve fmt id_param =
     (let invalid = \<lparr>hr_response = res_status_json 400
                        (JObj [(''error'', JStr ''Invalid PaymentIntent ID. Should start with pi_'')]),
                     hr_log = [], hr_calls = []\<rparr>
      in case id_param of
           None \<Rightarrow> invalid
         | Some pid \<Rightarrow>
             if pid = [] \<or> \<not> startsWith pid ''pi_'' then invalid
             else
               (case retrieve pid of
                  Inl error \<Rightarrow> retrieve_failed error pid
                | Inr paymentIntent \<Rightarrow>
                    (case toISOString fmt (pi_created paymentIntent * 1000) of
                       Inl error \<Rightarrow> retrieve_failed error pid
                     | Inr created \<Rightarrow>
                         \<lparr>hr_response = res_json
                            (JObj [(''id'', JStr (pi_id paymentIntent)),
                                   (''status'', JStr (pi_status paymentIntent)),
                                   (''amount'', js_int (pi_amount paymentIntent)),
                                   (''currency'', JStr (pi_currency paymentIntent)),
                                   (''customer'', nullable_str (pi_customer paymentIntent)),
                                   (''metadata'',
                                      JObj (map (\<lambda>(k, v). (k, JStr v)) (pi_metadata paymentIntent))),
                                   (''created'', JStr created),
                                   (''lastError'',
                                      lastError (pi_last_payment_error paymentIntent))]),
                          hr_log = [],
                          hr_calls = [PaymentIntentsRetrieve pid]\<rparr>)))"


section \<open>customers.js\<close>

record customer =
  cus_id :: string
  cus_email :: "string option"
  cus_name :: "string option"
  cus_created :: int

record customer_body =
  email :: "string option"
  name :: "string option"
  phone :: "string option"
  cb_metadata :: "(string \<times> jsval) list option"

type_synonym customers_create = "customer_params \<Rightarrow> js_error + customer"

definition create_failed :: "js_error \<Rightarrow> log_line list \<Rightarrow> customer_params \<Rightarrow> handler_result" where
  "create_failed error written params =
     \<lparr>hr_response = res_status_json 400
        (JObj [(''error'', JStr (message error)), (''type'', opt_str (err_type error))]),
      hr_log = written @ [ConsoleError [Lit ''Customer creation failed:'',
                                        Interp (JStr (message error))]],
      hr_calls = [CustomersCreate params]\<rparr>"

definition createCustomer ::
  "customers_create \<Rightarrow> (int \<Rightarrow> string) \<Rightarrow> string \<Rightarrow> customer_body \<Rightarrow> handler_result" where
  "createCustomer create fmt now req_body =
     (let metadata' = or_empty (cb_metadata req_body);
          invalid = \<lparr>hr_response = res_status_json 400
                        (JObj [(''error'', JStr ''Email is required to create a Customer'')]),
                     hr_log = [], hr_calls = []\<rparr>
      in case email req_body of
           None \<Rightarrow> invalid
         | Some email' \<Rightarrow>
             if email' = [] then invalid
             else
               (let params = \<lparr>cp_email = email',
                              cp_name = name req_body,
                              cp_phone = phone req_body,
                              cp_metadata = spread_with metadata' ''created_at'' (JStr now)\<rparr>
                in case create params of
                     Inl error \<Rightarrow> create_failed error [] params
                   | Inr customer \<Rightarrow>
                       (let written = [ConsoleLog [Lit ''Customer created: '',
                                                   Interp (JStr (cus_id customer)),
                                                   Lit '' | '', Interp (JStr email')]]
                        in case toISOString fmt (cus_created customer * 1000) of
                             Inl error \<Rightarrow> create_failed error written params
                           | Inr created \<Rightarrow>
                               \<lparr>hr_response = res_json
                                  (JObj [(''customerId'', JStr (cus_id customer)),
                                         (''email'', nullable_str (cus_email customer)),
                                         (''name'', nullable_str (cus_name customer)),
                                         (''created'', JStr created),
                                         (''dashboardUrl'',
                                            JStr (''https://dashboard.stripe.com/test/customers/''
                                                  @ cus_id customer))]),
                                hr_log = written,
                                hr_calls = [CustomersCreate params]\<rparr>)))"



section \<open>Notions used in the statements\<close>

text \<open>A statement sequence that runs to its end without throwing.\<close>

definition no_throw :: "'a js \<Rightarrow> bool" where
  "no_throw m = (case snd m of Inl _ \<Rightarrow> False | Inr _ \<Rightarrow> True)"

text \<open>The own property \<open>k\<close> of a value, \<^verbatim>\<open>undefined\<close> when there is none.\<close>

definition own_prop :: "jsval \<Rightarrow> string \<Rightarrow> jsval" where
  "own_prop v k =
     (case v of
        JObj ps \<Rightarrow> (case map_of ps k of None \<Rightarrow> JUndefined | Some w \<Rightarrow> w)
      | _ \<Rightarrow> JUndefined)"

text \<open>A scalar: a string, a number, a boolean, \<^verbatim>\<open>null\<close>, or absent.\<close>

fun scalar :: "jsval \<Rightarrow> bool" where
  "scalar (JArr xs) = False"
| "scalar (JObj ps) = False"
| "scalar v = True"

definition scalar_fields :: "jsval \<Rightarrow> string list \<Rightarrow> bool" where
  "scalar_fields v ks = (case v of JObj ps \<Rightarrow> list_all (\<lambda>k. scalar (own_prop v k)) ks | _ \<Rightarrow> False)"

definition optional_record :: "jsval \<Rightarrow> string list \<Rightarrow> bool" where
  "optional_record v ks = (v = JNull \<or> v = JUndefined \<or> scalar_fields v ks)"

text \<open>
  Modelled from the spec: the shape of the resource that an event of the processor
  carries as \<^verbatim>\<open>data.object\<close>, for the fields the handler reads; the type is declared
  by the processor's client library, not in the repository. Following section 3, the
  resource is an object; its identifier, amount, customer reference, e-mail address and
  reason are scalars; its last-error record and its next-action record are absent,
  \<^verbatim>\<open>null\<close>, or objects whose entries (code, decline code, message; type) are scalars.
\<close>

definition processor_resource :: "jsval \<Rightarrow> bool" where
  "processor_resource obj =
     (scalar_fields obj [''id'', ''amount'', ''customer'', ''email'', ''reason'']
      \<and> optional_record (own_prop obj ''last_payment_error'') [''code'', ''decline_code'', ''message'']
      \<and> optional_record (own_prop obj ''next_action'') [''type''])"

definition processor_event :: "event \<Rightarrow> bool" where
  "processor_event e = processor_resource (own_prop (ev_data e) ''object'')"

text \<open>The event kinds the specification lists, and the branch it assigns to a type tag.\<close>

definition known_event_types :: "string list" where
  "known_event_types =
     [''payment_intent.succeeded'', ''payment_intent.payment_failed'',
      ''payment_intent.requires_action'', ''customer.created'', ''charge.dispute.created'']"

definition selected_branch :: "string \<Rightarrow> branch" where
  "selected_branch t =
     (if t = ''payment_intent.succeeded'' then PaymentSucceeded
      else if t = ''payment_intent.payment_failed'' then PaymentFailed
      else if t = ''payment_intent.requires_action'' then RequiresAction
      else if t = ''customer.created'' then CustomerCreated
      else if t = ''charge.dispute.created'' then DisputeCreated
      else Unhandled)"

text \<open>The body the specification assigns to a type tag: the side effect of that kind.\<close>

definition selected_body :: "string \<Rightarrow> event \<Rightarrow> unit js" where
  "selected_body t =
     (if t = ''payment_intent.succeeded'' then payment_succeeded
      else if t = ''payment_intent.payment_failed'' then payment_failed
      else if t = ''payment_intent.requires_action'' then requires_action
      else if t = ''customer.created'' then customer_created
      else if t = ''charge.dispute.created'' then dispute_created
      else unhandled)"


text \<open>\<^verbatim>\<open>Number.isInteger(n) && n > 0\<close>: what the specification asks of an amount.\<close>

fun positive_integer :: "jsnum \<Rightarrow> bool" where
  "positive_integer (Finite r) = (0 < r \<and> of_int \<lfloor>r\<rfloor> = r)"
| "positive_integer n = False"

text \<open>A processor that answers as \<open>create\<close> does, with the confirmation token set to \<open>s\<close>.\<close>

definition with_client_secret :: "string \<Rightarrow> payment_intents_create \<Rightarrow> payment_intents_create" where
  "with_client_secret s create =
     (\<lambda>p. case create p of
            Inl e \<Rightarrow> Inl e
          | Inr intent \<Rightarrow> Inr (intent\<lparr>pi_client_secret := s\<rparr>))"


subsection \<open>Example inputs\<close>

definition example_request :: webhook_request where
  "example_request = \<lparr>raw_body = ''payload'', stripe_signature = Some ''t=1000,v1=sig''\<rparr>"

text \<open>A verifier that throws, and one that returns a given event.\<close>

definition rejecting :: construct_event where
  "rejecting payload header secret = Inl (SignatureVerificationError ''No matching signature'')"

definition accepting :: "event \<Rightarrow> construct_event" where
  "accepting e payload header secret = Inr e"

definition unknown_event :: event where
  "unknown_event =
     \<lparr>ev_id = ''evt_1'', ev_type = ''invoice.paid'',
      ev_data = JObj [(''object'', JObj [(''id'', JStr ''in_1'')])]\<rparr>"

definition failed_payment_event :: event where
  "failed_payment_event =
     \<lparr>ev_id = ''evt_2'', ev_type = ''payment_intent.payment_failed'',
      ev_data = JObj [(''object'',
        JObj [(''id'', JStr ''pi_1''),
              (''last_payment_error'', JObj [(''code'', JStr ''card_declined'')])])]\<rparr>"

definition customer_event :: event where
  "customer_event =
     \<lparr>ev_id = ''evt_3'', ev_type = ''customer.created'',
      ev_data = JObj [(''object'',
        JObj [(''id'', JStr ''cus_1''), (''email'', JStr ''user@example.com'')])]\<rparr>"

definition null_object_event :: event where
  "null_object_event =
     \<lparr>ev_id = ''evt_4'', ev_type = ''payment_intent.succeeded'',
      ev_data = JObj [(''object'', JNull)]\<rparr>"

definition unconvertible_id_event :: event where
  "unconvertible_id_event =
     \<lparr>ev_id = ''evt_5'', ev_type = ''customer.created'',
      ev_data = JObj [(''object'', JObj [(''id'', JObj [(''toString'', JNum (Finite 0))])])]\<rparr>"

text \<open>
  Verifier primitives under which the example request carries a correct signature with
  timestamp 1000, read at time 1301.
\<close>

definition stale_lib :: verifier_primitives where
  "stale_lib =
     \<lparr>parse_header = (\<lambda>h. Some \<lparr>sh_timestamp = 1000, sh_digests = [''sig'']\<rparr>),
      digest = (\<lambda>s t b. ''sig''),
      parse_event = (\<lambda>b. Inr customer_event),
      clock = 1301\<rparr>"

definition example_intent :: payment_intent where
  "example_intent =
     \<lparr>pi_id = ''pi_1'', pi_client_secret = ''pi_1_secret_0'', pi_amount = 5000,
      pi_currency = ''gbp'', pi_status = ''requires_payment_method'', pi_customer = None,
      pi_metadata = [], pi_created = 1700000000, pi_last_payment_error = None\<rparr>"

definition example_error :: js_error where
  "example_error =
     \<lparr>err_name = ''StripeAuthenticationError'', message = ''Invalid API Key provided'',
      err_type = Some ''StripeAuthenticationError''\<rparr>"

definition example_body :: payment_intent_body where
  "example_body =
     \<lparr>amount = Some (Finite 5000), currency = None, customerId = None,
      metadata = Some [(''timestamp'', JStr ''forged''), (''order_id'', JStr ''ORD-001'')]\<rparr>"

definition example_customer_body :: customer_body where
  "example_customer_body =
     \<lparr>email = Some ''user@example.com'', name = None, phone = None,
      cb_metadata = Some [(''internal_user_id'', JStr ''USR-123''), (''created_at'', JStr ''forged'')]\<rparr>"

section \<open>Auxiliary facts\<close>

lemma no_throw_bindM:
  "no_throw (bindM m f) = (case snd m of Inl _ \<Rightarrow> False | Inr a \<Rightarrow> no_throw (f a))"
  by (cases m; cases "snd m") (auto simp: no_throw_def split: prod.splits)

lemma bindM_returnM: "bindM m returnM = m"
  by (cases m; cases "snd m") (auto simp: returnM_def)

lemma snd_console_log: "snd (console_log xs) = Inr ()"
  by (simp add: console_log_def)

lemma no_throw_console_log: "no_throw (console_log xs)"
  by (simp add: no_throw_def console_log_def)

lemma snd_get_prop:
  "snd (get_prop v k) =
     (if v = JUndefined
      then Inl (TypeError (''Cannot read properties of undefined (reading '' @ quoted k @ '')''))
      else if v = JNull
      then Inl (TypeError (''Cannot read properties of null (reading '' @ quoted k @ '')''))
      else Inr (own_prop v k))"
  by (cases v) (simp_all add: throwM_def returnM_def own_prop_def)

lemma snd_opt_prop: "snd (opt_prop v k) = Inr (own_prop v k)"
  by (cases v) (simp_all add: opt_prop_def returnM_def own_prop_def)

lemma snd_interp:
  "snd (interp v) =
     (if unconvertible v then Inl (TypeError ''Cannot convert object to primitive value'')
      else Inr (Interp v))"
  by (simp add: interp_def to_primitive_def throwM_def returnM_def)

lemma snd_interp_div100:
  "snd (interp_div100 v) =
     (if unconvertible v then Inl (TypeError ''Cannot convert object to primitive value'')
      else Inr (InterpDiv100 v))"
  by (simp add: interp_div100_def to_primitive_def throwM_def returnM_def)

lemma scalar_convertible: "scalar v \<Longrightarrow> \<not> unconvertible v"
  by (cases v) simp_all

lemma scalar_or_else: "scalar a \<Longrightarrow> scalar (or_else a (JStr g))"
  by (simp add: or_else_def)

lemma scalar_fields_member:
  "scalar_fields v ks \<Longrightarrow> k \<in> set ks \<Longrightarrow> scalar (own_prop v k)"
  by (cases v) (simp_all add: scalar_fields_def list_all_iff)

lemma optional_record_member:
  "optional_record v ks \<Longrightarrow> k \<in> set ks \<Longrightarrow> scalar (own_prop v k)"
  by (auto simp: optional_record_def own_prop_def dest: scalar_fields_member)

text \<open>What the shape of the processor's resource gives for each value a branch converts.\<close>

lemma processor_event_object:
  assumes "processor_event e"
  shows "\<exists>obj. snd (event_object e) = Inr obj \<and> processor_resource obj
               \<and> obj \<noteq> JUndefined \<and> obj \<noteq> JNull"
proof -
  let ?obj = "own_prop (ev_data e) ''object''"
  have shape: "processor_resource ?obj"
    using assms by (simp add: processor_event_def)
  then obtain ps where obj: "?obj = JObj ps"
    by (cases ?obj) (simp_all add: processor_resource_def scalar_fields_def)
  then have "ev_data e \<noteq> JUndefined" and "ev_data e \<noteq> JNull"
    by (auto simp: own_prop_def)
  then have "snd (event_object e) = Inr ?obj"
    by (simp add: event_object_def snd_get_prop)
  with shape obj show ?thesis
    by simp
qed

lemma processor_resource_convertible:
  assumes "processor_resource obj"
  shows "\<not> unconvertible (own_prop obj ''id'')"
    and "\<not> unconvertible (own_prop obj ''amount'')"
    and "\<not> unconvertible (or_else (own_prop obj ''customer'') (JStr g))"
    and "\<not> unconvertible (own_prop obj ''email'')"
    and "\<not> unconvertible (own_prop obj ''reason'')"
    and "\<not> unconvertible (own_prop (own_prop obj ''last_payment_error'') ''code'')"
    and "\<not> unconvertible (own_prop (own_prop obj ''last_payment_error'') ''decline_code'')"
    and "\<not> unconvertible (own_prop (own_prop obj ''last_payment_error'') ''message'')"
    and "\<not> unconvertible (own_prop (own_prop obj ''next_action'') ''type'')"
proof -
  from assms
  have fields: "scalar_fields obj [''id'', ''amount'', ''customer'', ''email'', ''reason'']"
    and last_error: "optional_record (own_prop obj ''last_payment_error'')
                       [''code'', ''decline_code'', ''message'']"
    and next_action: "optional_record (own_prop obj ''next_action'') [''type'']"
    by (simp_all add: processor_resource_def)
  have field: "scalar (own_prop obj k)"
    if "k \<in> set [''id'', ''amount'', ''customer'', ''email'', ''reason'']" for k
    using fields that by (rule scalar_fields_member)
  show "\<not> unconvertible (own_prop obj ''id'')"
    by (rule scalar_convertible, rule field) simp
  show "\<not> unconvertible (own_prop obj ''amount'')"
    by (rule scalar_convertible, rule field) simp
  show "\<not> unconvertible (or_else (own_prop obj ''customer'') (JStr g))"
    by (rule scalar_convertible, rule scalar_or_else, rule field) simp
  show "\<not> unconvertible (own_prop obj ''email'')"
    by (rule scalar_convertible, rule field) simp
  show "\<not> unconvertible (own_prop obj ''reason'')"
    by (rule scalar_convertible, rule field) simp
  show "\<not> unconvertible (own_prop (own_prop obj ''last_payment_error'') ''code'')"
    by (rule scalar_convertible, rule optional_record_member [OF last_error]) simp
  show "\<not> unconvertible (own_prop (own_prop obj ''last_payment_error'') ''decline_code'')"
    by (rule scalar_convertible, rule optional_record_member [OF last_error]) simp
  show "\<not> unconvertible (own_prop (own_prop obj ''last_payment_error'') ''message'')"
    by (rule scalar_convertible, rule optional_record_member [OF last_error]) simp
  show "\<not> unconvertible (own_prop (own_prop obj ''next_action'') ''type'')"
    by (rule scalar_convertible, rule optional_record_member [OF next_action]) simp
qed

lemmas branch_simps =
  no_throw_bindM snd_console_log no_throw_console_log snd_get_prop snd_opt_prop
  snd_interp snd_interp_div100

lemma no_throw_payment_succeeded: "processor_event e \<Longrightarrow> no_throw (payment_succeeded e)"
  using processor_event_object [of e]
  by (auto simp: payment_succeeded_def branch_simps processor_resource_convertible)

lemma no_throw_payment_failed: "processor_event e \<Longrightarrow> no_throw (payment_failed e)"
  using processor_event_object [of e]
  by (auto simp: payment_failed_def branch_simps processor_resource_convertible)

lemma no_throw_requires_action: "processor_event e \<Longrightarrow> no_throw (requires_action e)"
  using processor_event_object [of e]
  by (auto simp: requires_action_def branch_simps processor_resource_convertible)

lemma no_throw_customer_created: "processor_event e \<Longrightarrow> no_throw (customer_created e)"
  using processor_event_object [of e]
  by (auto simp: customer_created_def branch_simps processor_resource_convertible)

lemma no_throw_dispute_created: "processor_event e \<Longrightarrow> no_throw (dispute_created e)"
  using processor_event_object [of e]
  by (auto simp: dispute_created_def branch_simps processor_resource_convertible)

lemma no_throw_unhandled: "no_throw (unhandled e)"
  by (simp add: unhandled_def no_throw_console_log)

lemma no_throw_run_branch: "processor_event e \<Longrightarrow> no_throw (run_branch b e)"
  by (cases b)
     (simp_all add: no_throw_payment_succeeded no_throw_payment_failed
        no_throw_requires_action no_throw_customer_created no_throw_dispute_created
        no_throw_unhandled)

lemma entered_branches_selected: "entered_branches e = [selected_branch (ev_type e)]"
  by (simp add: entered_branches_def switch_on_def webhook_switch_def selected_branch_def)

lemma dispatch_selected: "dispatch e = run_branch (selected_branch (ev_type e)) e"
  by (simp add: dispatch_def entered_branches_selected bindM_returnM)

lemma selected_branch_unknown:
  "t \<notin> set known_event_types \<Longrightarrow> selected_branch t = Unhandled"
  by (simp add: known_event_types_def selected_branch_def)

lemma no_throw_dispatch:
  "processor_event e \<or> ev_type e \<notin> set known_event_types \<Longrightarrow> no_throw (dispatch e)"
  by (auto simp: dispatch_selected no_throw_run_branch selected_branch_unknown no_throw_unhandled)

text \<open>
  Outside that shape a branch of a known kind can throw, before or after it has written
  lines; the handler's \<^verbatim>\<open>catch\<close> then answers 500.
\<close>

lemma dispatch_throws_on_null_object:
  "dispatch null_object_event =
     ([ConsoleLog [Lit ''Payment succeeded!'']],
      Inl (TypeError ''Cannot read properties of null (reading 'amount')''))"
  by (simp add: dispatch_selected selected_branch_def payment_succeeded_def event_object_def
      null_object_event_def returnM_def throwM_def console_log_def quoted_def)

lemma dispatch_throws_on_unconvertible_id:
  "dispatch unconvertible_id_event =
     ([], Inl (TypeError ''Cannot convert object to primitive value''))"
  by (simp add: dispatch_selected selected_branch_def customer_created_def event_object_def
      unconvertible_id_event_def interp_def to_primitive_def returnM_def throwM_def)

lemma map_of_spread_with: "map_of (spread_with obj k v) = (map_of obj)(k \<mapsto> v)"
  by (simp add: spread_with_def update_conv')

lemma fractional_amount_not_integer: "rat_of_int \<lfloor>25 / 2 :: rat\<rfloor> \<noteq> 25 / 2"
  by code_simp

text \<open>
  The verifier of the specification accepts a correctly signed payload whose timestamp is
  inside the window: what it returns is the parsed event.
\<close>

lemma constructEvent_spec_accepts_fresh:
  assumes "parse_header lib h = Some sh"
    and "digest lib s (sh_timestamp sh) payload \<in> set (sh_digests sh)"
    and "clock lib - sh_timestamp sh \<le> DEFAULT_TOLERANCE"
  shows "constructEvent_spec lib payload (Some h) (Some s) = parse_event lib payload"
  using assms by (simp add: constructEvent_spec_def)

text \<open>
  The amounts the validation of \<^verbatim>\<open>createPaymentIntent\<close> turns away, and the ones it
  lets through to the processor.
\<close>

lemma createPaymentIntent_rejects_nonpositive:
  assumes "amount b = None \<or> (\<exists>r. amount b = Some (Finite r) \<and> r \<le> 0)"
  shows "createPaymentIntent create now b =
     \<lparr>hr_response = \<lparr>status = 400,
         body = JObj [(''error'', JStr ''Amount must be a positive integer (in pence/cents)'')]\<rparr>,
      hr_log = [], hr_calls = []\<rparr>"
  using assms by (auto simp: createPaymentIntent_def Let_def res_status_json_def)

lemma createPaymentIntent_contacts_processor_iff:
  "hr_calls (createPaymentIntent create now b) \<noteq> [] \<longleftrightarrow>
     (\<exists>n. amount b = Some n \<and> truthy_num n \<and> \<not> le_zero n)"
  by (auto simp: createPaymentIntent_def Let_def split: option.splits sum.splits)


section \<open>The webhook handler\<close>

text \<open>
  Claim C1. Whenever signature verification fails, that is whenever
  \<^verbatim>\<open>constructEvent\<close> throws, whatever the reason, the handler answers 400 with the
  verifier's message, enters no branch of the switch and writes nothing but the line
  that reports the failure.
\<close>

theorem handleWebhook_rejects_failed_verification:
  assumes "constructEvent (raw_body req) (stripe_signature req) secret = Inl err"
  shows "wh_response (handleWebhook constructEvent secret req) =
           \<lparr>status = 400, body = JObj [(''error'', JStr (''Webhook Error: '' @ message err))]\<rparr>
       \<and> wh_dispatched (handleWebhook constructEvent secret req) = []
       \<and> wh_log (handleWebhook constructEvent secret req) =
           [ConsoleError [Lit ''Webhook signature verification failed: '',
                          Interp (JStr (message err))]]"
  using assms by (simp add: handleWebhook_def res_status_json_def)

theorem handleWebhook_rejects_failed_verification_witness:
  "rejecting (raw_body example_request) (stripe_signature example_request) (Some ''whsec_1'')
     = Inl (SignatureVerificationError ''No matching signature'')
   \<and> wh_response (handleWebhook rejecting (Some ''whsec_1'') example_request) =
       \<lparr>status = 400, body = JObj [(''error'', JStr ''Webhook Error: No matching signature'')]\<rparr>
   \<and> wh_dispatched (handleWebhook rejecting (Some ''whsec_1'') example_request) = []"
proof -
  have h: "rejecting (raw_body example_request) (stripe_signature example_request)
             (Some ''whsec_1'') = Inl (SignatureVerificationError ''No matching signature'')"
    by (simp add: rejecting_def)
  show ?thesis
    using h handleWebhook_rejects_failed_verification
      [of rejecting example_request "Some ''whsec_1''"
          "SignatureVerificationError ''No matching signature''"]
    by (simp add: SignatureVerificationError_def)
qed

text \<open>
  Claim C2. With the verifier of the specification, a payload whose embedded timestamp is
  older than the tolerance window of 300 seconds fails verification, whether or not its
  signature is the right one, and the handler then answers 400 and enters no branch.
\<close>

theorem handleWebhook_rejects_stale_timestamp:
  assumes "stripe_signature req = Some h"
    and "parse_header lib h = Some sh"
    and "clock lib - sh_timestamp sh > DEFAULT_TOLERANCE"
  shows "isl (constructEvent_spec lib (raw_body req) (stripe_signature req) secret)
       \<and> status (wh_response (handleWebhook (constructEvent_spec lib) secret req)) = 400
       \<and> wh_dispatched (handleWebhook (constructEvent_spec lib) secret req) = []"
proof -
  have failed: "isl (constructEvent_spec lib (raw_body req) (stripe_signature req) secret)"
    using assms by (simp add: constructEvent_spec_def split: option.splits)
  then obtain err where
    "constructEvent_spec lib (raw_body req) (stripe_signature req) secret = Inl err"
    by (auto simp: isl_def)
  with failed show ?thesis
    by (simp add: handleWebhook_def res_status_json_def)
qed

theorem handleWebhook_rejects_stale_timestamp_witness:
  "digest stale_lib ''whsec_1'' 1000 (raw_body example_request) \<in> set [''sig'']
   \<and> clock stale_lib - 1000 > DEFAULT_TOLERANCE
   \<and> isl (constructEvent_spec stale_lib (raw_body example_request)
            (stripe_signature example_request) (Some ''whsec_1''))
   \<and> status (wh_response
        (handleWebhook (constructEvent_spec stale_lib) (Some ''whsec_1'') example_request)) = 400
   \<and> wh_dispatched
        (handleWebhook (constructEvent_spec stale_lib) (Some ''whsec_1'') example_request) = []"
proof -
  have h1: "stripe_signature example_request = Some ''t=1000,v1=sig''"
    by (simp add: example_request_def)
  have h2: "parse_header stale_lib ''t=1000,v1=sig''
              = Some \<lparr>sh_timestamp = 1000, sh_digests = [''sig'']\<rparr>"
    by (simp add: stale_lib_def)
  have h3: "clock stale_lib - sh_timestamp \<lparr>sh_timestamp = 1000, sh_digests = [''sig'']\<rparr>
              > DEFAULT_TOLERANCE"
    by (simp add: stale_lib_def DEFAULT_TOLERANCE_def)
  have d: "digest stale_lib ''whsec_1'' 1000 (raw_body example_request) \<in> set [''sig'']"
    by (simp add: stale_lib_def)
  show ?thesis
    using d h3 handleWebhook_rejects_stale_timestamp [OF h1 h2 h3, of "Some ''whsec_1''"]
    by simp
qed

text \<open>
  Claim C3. For a payload that verifies, the switch enters exactly one branch, the one
  the event-type tag selects, and what the handler does is the run of that branch's body
  alone: after the line that reports the receipt, its console lines are the lines of
  that body, followed by the error line when the body throws, and its response is 200
  with the acknowledgement when the body completes (500 when it throws). An event whose
  type is none of the known kinds enters the default branch: the handler writes the line
  that names the unhandled type, reads nothing of the event's data and acknowledges
  with 200.
\<close>

theorem handleWebhook_runs_exactly_the_selected_branch:
  assumes "constructEvent (raw_body req) (stripe_signature req) secret = Inr e"
  shows "entered_branches e = [selected_branch (ev_type e)]
       \<and> wh_dispatched (handleWebhook constructEvent secret req) = [selected_branch (ev_type e)]
       \<and> wh_log (handleWebhook constructEvent secret req) =
           ConsoleLog [Lit ''Webhook received: '', Interp (JStr (ev_type e)),
                       Lit '' | ID: '', Interp (JStr (ev_id e))]
           # fst (selected_body (ev_type e) e)
           @ (case snd (selected_body (ev_type e) e) of
                Inl err \<Rightarrow> [ConsoleError [Lit ''Error processing webhook event: '',
                                              Interp (JStr (message err))]]
              | Inr u \<Rightarrow> [])
       \<and> wh_response (handleWebhook constructEvent secret req) =
           (case snd (selected_body (ev_type e) e) of
              Inl err \<Rightarrow>
                \<lparr>status = 500, body = JObj [(''error'', JStr ''Internal error processing webhook'')]\<rparr>
            | Inr u \<Rightarrow>
                \<lparr>status = 200,
                 body = JObj [(''received'', JBool True), (''eventType'', JStr (ev_type e)),
                              (''eventId'', JStr (ev_id e))]\<rparr>)
       \<and> (ev_type e \<notin> set known_event_types \<longrightarrow>
            wh_dispatched (handleWebhook constructEvent secret req) = [Unhandled]
          \<and> wh_response (handleWebhook constructEvent secret req) =
              \<lparr>status = 200,
               body = JObj [(''received'', JBool True), (''eventType'', JStr (ev_type e)),
                            (''eventId'', JStr (ev_id e))]\<rparr>
          \<and> wh_log (handleWebhook constructEvent secret req) =
              [ConsoleLog [Lit ''Webhook received: '', Interp (JStr (ev_type e)),
                           Lit '' | ID: '', Interp (JStr (ev_id e))],
               ConsoleLog [Lit ''Unhandled event type: '', Interp (JStr (ev_type e))]])"
proof -
  let ?r = "handleWebhook constructEvent secret req"
  let ?run = "selected_body (ev_type e) e"
  have run: "dispatch e = ?run"
    by (simp add: dispatch_selected selected_branch_def selected_body_def)
  obtain lines outcome where split: "?run = (lines, outcome)"
    by (cases ?run)
  have entered: "wh_dispatched ?r = [selected_branch (ev_type e)]"
    using assms
    by (simp add: handleWebhook_def entered_branches_selected Let_def
        split: prod.splits sum.splits)
  have written: "wh_log ?r =
      ConsoleLog [Lit ''Webhook received: '', Interp (JStr (ev_type e)),
                  Lit '' | ID: '', Interp (JStr (ev_id e))]
      # fst ?run
      @ (case snd ?run of
           Inl err \<Rightarrow> [ConsoleError [Lit ''Error processing webhook event: '',
                                         Interp (JStr (message err))]]
         | Inr u \<Rightarrow> [])"
    using assms run split
    by (cases outcome) (simp_all add: handleWebhook_def)
  have answered: "wh_response ?r =
      (case snd ?run of
         Inl err \<Rightarrow>
           \<lparr>status = 500, body = JObj [(''error'', JStr ''Internal error processing webhook'')]\<rparr>
       | Inr u \<Rightarrow>
           \<lparr>status = 200,
            body = JObj [(''received'', JBool True), (''eventType'', JStr (ev_type e)),
                         (''eventId'', JStr (ev_id e))]\<rparr>)"
    using assms run split
    by (cases outcome) (simp_all add: handleWebhook_def res_json_def res_status_json_def)
  have default: "?run = ([ConsoleLog [Lit ''Unhandled event type: '', Interp (JStr (ev_type e))]],
                         Inr ())"
    if "ev_type e \<notin> set known_event_types"
    using that
    by (simp add: selected_body_def known_event_types_def unhandled_def console_log_def)
  show ?thesis
    using entered written answered default
    by (auto simp: entered_branches_selected selected_branch_unknown)
qed

theorem handleWebhook_runs_exactly_the_selected_branch_witness:
  "ev_type unknown_event \<notin> set known_event_types
   \<and> wh_dispatched (handleWebhook (accepting unknown_event) None example_request) = [Unhandled]
   \<and> wh_log (handleWebhook (accepting unknown_event) None example_request) =
       [ConsoleLog [Lit ''Webhook received: '', Interp (JStr ''invoice.paid''),
                    Lit '' | ID: '', Interp (JStr ''evt_1'')],
        ConsoleLog [Lit ''Unhandled event type: '', Interp (JStr ''invoice.paid'')]]
   \<and> status (wh_response (handleWebhook (accepting unknown_event) None example_request)) = 200
   \<and> wh_dispatched (handleWebhook (accepting customer_event) None example_request)
       = [CustomerCreated]
   \<and> wh_log (handleWebhook (accepting customer_event) None example_request) =
       [ConsoleLog [Lit ''Webhook received: '', Interp (JStr ''customer.created''),
                    Lit '' | ID: '', Interp (JStr ''evt_3'')],
        ConsoleLog [Lit ''New customer created: '', Interp (JStr ''cus_1''), Lit '' | '',
                    Interp (JStr ''user@example.com'')]]
   \<and> status (wh_response (handleWebhook (accepting customer_event) None example_request)) = 200"
proof -
  have u: "accepting unknown_event (raw_body example_request)
             (stripe_signature example_request) None = Inr unknown_event"
    by (simp add: accepting_def)
  have c: "accepting customer_event (raw_body example_request)
             (stripe_signature example_request) None = Inr customer_event"
    by (simp add: accepting_def)
  have k: "ev_type unknown_event \<notin> set known_event_types"
    by (simp add: unknown_event_def known_event_types_def)
  have s: "selected_branch ''customer.created'' = CustomerCreated"
    by (simp add: selected_branch_def)
  have body: "selected_body ''customer.created'' customer_event =
      ([ConsoleLog [Lit ''New customer created: '', Interp (JStr ''cus_1''), Lit '' | '',
                    Interp (JStr ''user@example.com'')]], Inr ())"
    by (simp add: selected_body_def customer_created_def event_object_def customer_event_def
        interp_def to_primitive_def returnM_def console_log_def)
  have ids: "ev_type unknown_event = ''invoice.paid''" "ev_id unknown_event = ''evt_1''"
    "ev_type customer_event = ''customer.created''" "ev_id customer_event = ''evt_3''"
    by (simp_all add: unknown_event_def customer_event_def)
  note unknown = handleWebhook_runs_exactly_the_selected_branch
        [where constructEvent = "accepting unknown_event" and req = example_request
           and secret = None and e = unknown_event, OF u]
  note known = handleWebhook_runs_exactly_the_selected_branch
        [where constructEvent = "accepting customer_event" and req = example_request
           and secret = None and e = customer_event, OF c]
  from unknown k have first:
    "wh_dispatched (handleWebhook (accepting unknown_event) None example_request) = [Unhandled]
     \<and> wh_response (handleWebhook (accepting unknown_event) None example_request) =
         \<lparr>status = 200,
          body = JObj [(''received'', JBool True), (''eventType'', JStr (ev_type unknown_event)),
                       (''eventId'', JStr (ev_id unknown_event))]\<rparr>
     \<and> wh_log (handleWebhook (accepting unknown_event) None example_request) =
         [ConsoleLog [Lit ''Webhook received: '', Interp (JStr (ev_type unknown_event)),
                      Lit '' | ID: '', Interp (JStr (ev_id unknown_event))],
          ConsoleLog [Lit ''Unhandled event type: '', Interp (JStr (ev_type unknown_event))]]"
    by blast
  from known have second:
    "wh_dispatched (handleWebhook (accepting customer_event) None example_request)
       = [selected_branch (ev_type customer_event)]
     \<and> wh_log (handleWebhook (accepting customer_event) None example_request) =
         ConsoleLog [Lit ''Webhook received: '', Interp (JStr (ev_type customer_event)),
                     Lit '' | ID: '', Interp (JStr (ev_id customer_event))]
         # fst (selected_body (ev_type customer_event) customer_event)
         @ (case snd (selected_body (ev_type customer_event) customer_event) of
              Inl err \<Rightarrow> [ConsoleError [Lit ''Error processing webhook event: '',
                                            Interp (JStr (message err))]]
            | Inr u \<Rightarrow> [])
     \<and> wh_response (handleWebhook (accepting customer_event) None example_request) =
         (case snd (selected_body (ev_type customer_event) customer_event) of
            Inl err \<Rightarrow>
              \<lparr>status = 500,
               body = JObj [(''error'', JStr ''Internal error processing webhook'')]\<rparr>
          | Inr u \<Rightarrow>
              \<lparr>status = 200,
               body = JObj [(''received'', JBool True),
                            (''eventType'', JStr (ev_type customer_event)),
                            (''eventId'', JStr (ev_id customer_event))]\<rparr>)"
    by blast
  show ?thesis
    using k first second
    by (simp add: s body ids)
qed

text \<open>
  Claim C4. For a verified event the handler answers 200 with
  \<^verbatim>\<open>{received: true, eventType, eventId}\<close> whenever dispatch runs to its end, whatever
  the event reports; it answers 500 exactly when dispatch throws, and 200 exactly when
  it does not.
\<close>

theorem handleWebhook_acknowledges_verified_event:
  assumes "constructEvent (raw_body req) (stripe_signature req) secret = Inr e"
  shows "(no_throw (dispatch e) \<longrightarrow>
            wh_response (handleWebhook constructEvent secret req) =
              \<lparr>status = 200,
               body = JObj [(''received'', JBool True), (''eventType'', JStr (ev_type e)),
                            (''eventId'', JStr (ev_id e))]\<rparr>)
       \<and> (status (wh_response (handleWebhook constructEvent secret req)) = 500
            \<longleftrightarrow> \<not> no_throw (dispatch e))
       \<and> (status (wh_response (handleWebhook constructEvent secret req)) = 200
            \<longleftrightarrow> no_throw (dispatch e))"
proof (cases "dispatch e")
  case (Pair lines outcome)
  then show ?thesis
    using assms
    by (cases outcome)
       (simp_all add: handleWebhook_def no_throw_def res_json_def res_status_json_def)
qed

theorem handleWebhook_acknowledges_verified_event_witness:
  "no_throw (dispatch failed_payment_event)
   \<and> wh_response (handleWebhook (accepting failed_payment_event) None example_request) =
       \<lparr>status = 200,
        body = JObj [(''received'', JBool True),
                     (''eventType'', JStr ''payment_intent.payment_failed''),
                     (''eventId'', JStr ''evt_2'')]\<rparr>
   \<and> \<not> no_throw (dispatch null_object_event)
   \<and> status (wh_response (handleWebhook (accepting null_object_event) None example_request))
       = 500"
proof -
  have f: "accepting failed_payment_event (raw_body example_request)
             (stripe_signature example_request) None = Inr failed_payment_event"
    by (simp add: accepting_def)
  have n: "accepting null_object_event (raw_body example_request)
             (stripe_signature example_request) None = Inr null_object_event"
    by (simp add: accepting_def)
  have "processor_event failed_payment_event"
    by (simp add: processor_event_def processor_resource_def scalar_fields_def
        optional_record_def own_prop_def failed_payment_event_def)
  then have ok: "no_throw (dispatch failed_payment_event)"
    by (simp add: no_throw_dispatch)
  have thrown: "\<not> no_throw (dispatch null_object_event)"
    by (simp add: dispatch_throws_on_null_object no_throw_def)
  show ?thesis
    using ok thrown
      handleWebhook_acknowledges_verified_event
        [where constructEvent = "accepting failed_payment_event" and req = example_request
           and secret = None and e = failed_payment_event, OF f]
      handleWebhook_acknowledges_verified_event
        [where constructEvent = "accepting null_object_event" and req = example_request
           and secret = None and e = null_object_event, OF n]
    by (simp add: failed_payment_event_def)
qed





section \<open>The request handlers\<close>

text \<open>
  Claim C6 fails on the code at the amount 12.5: the validation tests only that the
  amount is truthy and not \<^verbatim>\<open><= 0\<close>, so an amount that is positive and not an integer
  passes it and is sent to the processor's create call.
\<close>

theorem createPaymentIntent_forwards_fractional_amount:
  "hr_calls (createPaymentIntent create now
       \<lparr>amount = Some (Finite (25 / 2)), currency = None, customerId = None, metadata = None\<rparr>)
     = [PaymentIntentsCreate
          \<lparr>p_amount = Finite (25 / 2), p_currency = ''gbp'',
           p_automatic_payment_methods_enabled = True,
           p_metadata = [(''timestamp'', JStr now)], p_customer = None\<rparr>]
   \<and> positive_integer (Finite (25 / 2)) = False"
  using fractional_amount_not_integer
  by (simp add: createPaymentIntent_def Let_def or_empty_def spread_with_def split: sum.splits)

theorem createPaymentIntent_forwards_fractional_amount_witness:
  "hr_calls (createPaymentIntent (\<lambda>p. Inr example_intent) ''2026-01-01T00:00:00.000Z''
       \<lparr>amount = Some (Finite (25 / 2)), currency = None, customerId = None, metadata = None\<rparr>)
     = [PaymentIntentsCreate
          \<lparr>p_amount = Finite (25 / 2), p_currency = ''gbp'',
           p_automatic_payment_methods_enabled = True,
           p_metadata = [(''timestamp'', JStr ''2026-01-01T00:00:00.000Z'')],
           p_customer = None\<rparr>]"
  using createPaymentIntent_forwards_fractional_amount
    [of "\<lambda>p. Inr example_intent" "''2026-01-01T00:00:00.000Z''"]
  by simp

text \<open>
  Claim C7. When the id parameter is absent or does not start with \<^verbatim>\<open>pi_\<close>, the
  handler answers 400 with the error \<^verbatim>\<open>Invalid PaymentIntent ID. Should start with pi_\<close>,
  writes nothing and makes no call to the processor.
\<close>

theorem getPaymentStatus_rejects_bad_prefix:
  assumes "\<forall>pid. id_param = Some pid \<longrightarrow> \<not> startsWith pid ''pi_''"
  shows "getPaymentStatus retrieve fmt id_param =
     \<lparr>hr_response = \<lparr>status = 400,
         body = JObj [(''error'', JStr ''Invalid PaymentIntent ID. Should start with pi_'')]\<rparr>,
      hr_log = [], hr_calls = []\<rparr>"
  using assms
  by (cases id_param) (simp_all add: getPaymentStatus_def Let_def res_status_json_def)

theorem getPaymentStatus_rejects_bad_prefix_witness:
  "startsWith ''ch_123'' ''pi_'' = False
   \<and> getPaymentStatus (\<lambda>i. Inr example_intent) (\<lambda>ms. ''2023-11-14T22:13:20.000Z'')
       (Some ''ch_123'') =
     \<lparr>hr_response = \<lparr>status = 400,
         body = JObj [(''error'', JStr ''Invalid PaymentIntent ID. Should start with pi_'')]\<rparr>,
      hr_log = [], hr_calls = []\<rparr>"
proof -
  have h: "\<forall>pid. Some ''ch_123'' = Some pid \<longrightarrow> \<not> startsWith pid ''pi_''"
    by (simp add: startsWith_def)
  show ?thesis
    using getPaymentStatus_rejects_bad_prefix
      [OF h, of "\<lambda>i. Inr example_intent" "\<lambda>ms. ''2023-11-14T22:13:20.000Z''"]
    by (simp add: startsWith_def)
qed

text \<open>
  Claim C8. The confirmation token reaches the caller and nothing else: whatever token
  the processor puts into the payment intent, the console lines and the processor calls
  of the handler are the same, and a 200 response carries the token as
  \<^verbatim>\<open>clientSecret\<close>. The handler has no other effect, so nothing stores the token.
\<close>

theorem createPaymentIntent_log_independent_of_client_secret:
  "hr_log (createPaymentIntent (with_client_secret s create) now b)
     = hr_log (createPaymentIntent (with_client_secret s' create) now b)
   \<and> hr_calls (createPaymentIntent (with_client_secret s create) now b)
     = hr_calls (createPaymentIntent (with_client_secret s' create) now b)
   \<and> (status (hr_response (createPaymentIntent (with_client_secret s create) now b)) = 200 \<longrightarrow>
        (\<exists>ps. body (hr_response (createPaymentIntent (with_client_secret s create) now b))
                = JObj ps
            \<and> map_of ps ''clientSecret'' = Some (JStr s)))"
  by (simp add: createPaymentIntent_def Let_def with_client_secret_def res_json_def
      res_status_json_def split: option.splits sum.splits)

theorem createPaymentIntent_log_independent_of_client_secret_witness:
  "status (hr_response (createPaymentIntent
       (with_client_secret ''secret_a'' (\<lambda>p. Inr example_intent)) ''now'' example_body)) = 200
   \<and> hr_log (createPaymentIntent
       (with_client_secret ''secret_a'' (\<lambda>p. Inr example_intent)) ''now'' example_body)
     = hr_log (createPaymentIntent
       (with_client_secret ''secret_b'' (\<lambda>p. Inr example_intent)) ''now'' example_body)
   \<and> hr_log (createPaymentIntent
       (with_client_secret ''secret_a'' (\<lambda>p. Inr example_intent)) ''now'' example_body)
     = [ConsoleLog [Lit ''PaymentIntent created: '', Interp (JStr ''pi_1''), Lit '' | '',
                    InterpDiv100 (JNum (Finite 5000)), Lit '' '', InterpUpper ''gbp'',
                    Lit '' | status: '', Interp (JStr ''requires_payment_method'')]]"
proof -
  have ok: "status (hr_response (createPaymentIntent
       (with_client_secret ''secret_a'' (\<lambda>p. Inr example_intent)) ''now'' example_body)) = 200"
    by (simp add: createPaymentIntent_def Let_def with_client_secret_def res_json_def
        example_body_def)
  have written: "hr_log (createPaymentIntent
       (with_client_secret ''secret_a'' (\<lambda>p. Inr example_intent)) ''now'' example_body)
     = [ConsoleLog [Lit ''PaymentIntent created: '', Interp (JStr ''pi_1''), Lit '' | '',
                    InterpDiv100 (JNum (Finite 5000)), Lit '' '', InterpUpper ''gbp'',
                    Lit '' | status: '', Interp (JStr ''requires_payment_method'')]]"
    by (simp add: createPaymentIntent_def Let_def with_client_secret_def example_body_def
        example_intent_def)
  show ?thesis
    using ok written createPaymentIntent_log_independent_of_client_secret
      [of "''secret_a''" "\<lambda>p. Inr example_intent" "''now''" example_body "''secret_b''"]
    by simp
qed

text \<open>
  Claim C9. Every metadata object that \<^verbatim>\<open>createPaymentIntent\<close> sends to the processor
  holds the server's \<^verbatim>\<open>timestamp\<close>, and every one that \<^verbatim>\<open>createCustomer\<close> sends holds
  the server's \<^verbatim>\<open>created_at\<close>, whatever the caller supplied under that key; under every
  other key it holds exactly what the caller supplied.
\<close>

theorem create_handlers_overwrite_metadata_key:
  "(\<forall>p. PaymentIntentsCreate p \<in> set (hr_calls (createPaymentIntent pcreate now b)) \<longrightarrow>
        map_of (p_metadata p) ''timestamp'' = Some (JStr now)
      \<and> (\<forall>k. k \<noteq> ''timestamp'' \<longrightarrow>
             map_of (p_metadata p) k = map_of (or_empty (metadata b)) k))
 \<and> (\<forall>p. CustomersCreate p \<in> set (hr_calls (createCustomer ccreate fmt now' cb)) \<longrightarrow>
        map_of (cp_metadata p) ''created_at'' = Some (JStr now')
      \<and> (\<forall>k. k \<noteq> ''created_at'' \<longrightarrow>
             map_of (cp_metadata p) k = map_of (or_empty (cb_metadata cb)) k))"
proof -
  have payment:
    "p_metadata p = spread_with (or_empty (metadata b)) ''timestamp'' (JStr now)"
    if "PaymentIntentsCreate p \<in> set (hr_calls (createPaymentIntent pcreate now b))" for p
    using that
    by (auto simp: createPaymentIntent_def Let_def split: option.splits sum.splits if_splits)
  have customer:
    "cp_metadata p = spread_with (or_empty (cb_metadata cb)) ''created_at'' (JStr now')"
    if "CustomersCreate p \<in> set (hr_calls (createCustomer ccreate fmt now' cb))" for p
    using that
    by (auto simp: createCustomer_def create_failed_def Let_def
        split: option.splits sum.splits if_splits)
  show ?thesis
    using payment customer by (simp add: map_of_spread_with)
qed

theorem create_handlers_overwrite_metadata_key_witness:
  "hr_calls (createPaymentIntent (\<lambda>p. Inr example_intent) ''now'' example_body)
     = [PaymentIntentsCreate
          \<lparr>p_amount = Finite 5000, p_currency = ''gbp'',
           p_automatic_payment_methods_enabled = True,
           p_metadata = [(''timestamp'', JStr ''now''), (''order_id'', JStr ''ORD-001'')],
           p_customer = None\<rparr>]
   \<and> hr_calls (createCustomer (\<lambda>p. Inl example_error) (\<lambda>ms. ''date'') ''now''
        example_customer_body)
     = [CustomersCreate
          \<lparr>cp_email = ''user@example.com'', cp_name = None, cp_phone = None,
           cp_metadata = [(''internal_user_id'', JStr ''USR-123''),
                          (''created_at'', JStr ''now'')]\<rparr>]
   \<and> map_of (or_empty (metadata example_body)) ''timestamp'' = Some (JStr ''forged'')
   \<and> map_of [(''timestamp'', JStr ''now''), (''order_id'', JStr ''ORD-001'')] ''timestamp''
       = Some (JStr ''now'')
   \<and> map_of [(''internal_user_id'', JStr ''USR-123''), (''created_at'', JStr ''now'')]
        ''internal_user_id''
       = map_of (or_empty (cb_metadata example_customer_body)) ''internal_user_id''"
proof -
  have pc: "hr_calls (createPaymentIntent (\<lambda>p. Inr example_intent) ''now'' example_body)
     = [PaymentIntentsCreate
          \<lparr>p_amount = Finite 5000, p_currency = ''gbp'',
           p_automatic_payment_methods_enabled = True,
           p_metadata = [(''timestamp'', JStr ''now''), (''order_id'', JStr ''ORD-001'')],
           p_customer = None\<rparr>]"
    by (simp add: createPaymentIntent_def Let_def example_body_def or_empty_def spread_with_def)
  have cc: "hr_calls (createCustomer (\<lambda>p. Inl example_error) (\<lambda>ms. ''date'') ''now''
        example_customer_body)
     = [CustomersCreate
          \<lparr>cp_email = ''user@example.com'', cp_name = None, cp_phone = None,
           cp_metadata = [(''internal_user_id'', JStr ''USR-123''),
                          (''created_at'', JStr ''now'')]\<rparr>]"
    by (simp add: createCustomer_def create_failed_def Let_def example_customer_body_def
        or_empty_def spread_with_def)
  have forged: "map_of (or_empty (metadata example_body)) ''timestamp'' = Some (JStr ''forged'')"
    by (simp add: example_body_def or_empty_def)
  show ?thesis
    using pc cc forged create_handlers_overwrite_metadata_key
      [of "\<lambda>p. Inr example_intent" "''now''" example_body
          "\<lambda>p. Inl example_error" "\<lambda>ms. ''date''" "''now''" example_customer_body]
    by (simp add: example_customer_body_def or_empty_def)
qed

text \<open>
  Claim C10. For an id that starts with \<^verbatim>\<open>pi_\<close>, whenever the processor's retrieve call
  throws, whatever the error, the handler answers 404 with the error's message, after
  that one call.
\<close>

theorem getPaymentStatus_retrieve_failure_gives_404:
  assumes "startsWith pid ''pi_''"
    and "retrieve pid = Inl error"
  shows "hr_response (getPaymentStatus retrieve fmt (Some pid)) =
           \<lparr>status = 404, body = JObj [(''error'', JStr (message error))]\<rparr>
       \<and> hr_calls (getPaymentStatus retrieve fmt (Some pid)) = [PaymentIntentsRetrieve pid]"
proof -
  have "pid \<noteq> []"
    using assms(1) by (auto simp: startsWith_def)
  with assms show ?thesis
    by (simp add: getPaymentStatus_def Let_def retrieve_failed_def res_status_json_def)
qed

theorem getPaymentStatus_retrieve_failure_gives_404_witness:
  "startsWith ''pi_123'' ''pi_''
   \<and> hr_response (getPaymentStatus (\<lambda>i. Inl example_error) (\<lambda>ms. ''date'') (Some ''pi_123''))
       = \<lparr>status = 404, body = JObj [(''error'', JStr ''Invalid API Key provided'')]\<rparr>"
proof -
  have h: "startsWith ''pi_123'' ''pi_''"
    by (simp add: startsWith_def)
  have r: "(\<lambda>i. Inl example_error) ''pi_123'' = (Inl example_error :: js_error + payment_intent)"
    by simp
  show ?thesis
    using h getPaymentStatus_retrieve_failure_gives_404
      [where retrieve = "\<lambda>i. Inl example_error" and pid = "''pi_123''"
         and error = example_error and fmt = "\<lambda>ms. ''date''", OF h r]
    by (simp add: example_error_def)
qed

end
